theory Spec2Isabelle
  imports Complex_Main
begin

section \<open>Python values used by the workflows\<close>

text \<open>
  A Python \<open>str\<close> is a sequence of Unicode code points; the default caption of
  \<open>instagram_poster.py\<close> contains code points above 255, and \<open>str.strip\<close> removes
  Unicode white space, so a string is modelled as a list of code points.  ASCII literals of
  the source are written \<open>u ''...''\<close>.
\<close>

type_synonym ustring = "nat list"

definition u :: "string \<Rightarrow> ustring" where
  "u s = map of_char s"

text \<open>
  The code points for which \<open>str.isspace\<close> holds; \<open>str.strip()\<close> without argument
  removes exactly these from both ends.
\<close>

definition is_space :: "nat \<Rightarrow> bool" where
  "is_space c \<longleftrightarrow>
     (9 \<le> c \<and> c \<le> 13) \<or> (28 \<le> c \<and> c \<le> 32) \<or> c = 133 \<or> c = 160 \<or> c = 5760 \<or>
     (8192 \<le> c \<and> c \<le> 8202) \<or> c = 8232 \<or> c = 8233 \<or> c = 8239 \<or> c = 8287 \<or> c = 12288"

definition strip :: "ustring \<Rightarrow> ustring" where
  "strip s = rev (dropWhile is_space (rev (dropWhile is_space s)))"

text \<open>
  \<open>s.replace(old, new)\<close>: the occurrences of \<open>old\<close> are found from the left and do not
  overlap.  The counter of \<open>replace_from\<close> is the number of characters of a matched
  occurrence that are still to be skipped.
\<close>

fun replace_from :: "'a list \<Rightarrow> 'a list \<Rightarrow> nat \<Rightarrow> 'a list \<Rightarrow> 'a list" where
  "replace_from old new k [] = []"
| "replace_from old new (Suc k) (c # s) = replace_from old new k s"
| "replace_from old new 0 (c # s) =
     (if take (length old) (c # s) = old
      then new @ replace_from old new (length old - 1) s
      else c # replace_from old new 0 s)"

definition py_replace :: "'a list \<Rightarrow> 'a list \<Rightarrow> 'a list \<Rightarrow> 'a list" where
  "py_replace s old new =
     (if old = [] then new @ concat (map (\<lambda>c. c # new) s) else replace_from old new 0 s)"

text \<open>\<open>needle in hay\<close> for two strings: \<open>needle\<close> occurs in \<open>hay\<close> as a contiguous run.\<close>

fun is_substr :: "'a list \<Rightarrow> 'a list \<Rightarrow> bool" where
  "is_substr needle [] = (needle = [])"
| "is_substr needle (c # s) =
     (take (length needle) (c # s) = needle \<or> is_substr needle s)"

text \<open>
  A decoded JSON document, as \<open>response.json()\<close> and the upload client return it.  A
  \<open>dict\<close> is an association list read with \<open>map_of\<close>.
\<close>

datatype json =
    JNull
  | JBool bool
  | JNum rat
  | JStr ustring
  | JList "json list"
  | JDict "(ustring \<times> json) list"

text \<open>
  Exceptions.  \<open>Raised cls msg\<close> is an exception of class \<open>cls\<close> whose \<open>str\<close> is
  \<open>msg\<close>, raised by a library call or by a \<open>raise\<close> statement; the others are raised by
  the interpreter on the operations below.  Only subclasses of \<open>Exception\<close> are modelled:
  \<open>KeyboardInterrupt\<close> and \<open>SystemExit\<close> are outside the model.
\<close>

datatype exn =
    Raised string ustring
  | TypeError
  | AttributeError
  | KeyError
  | ZeroDivisionError
  | UnboundLocalError

text \<open>Truth value of a JSON value, as \<open>not v\<close> tests it.\<close>

fun truthy :: "json \<Rightarrow> bool" where
  "truthy JNull = False"
| "truthy (JBool b) = b"
| "truthy (JNum n) = (n \<noteq> 0)"
| "truthy (JStr s) = (s \<noteq> [])"
| "truthy (JList xs) = (xs \<noteq> [])"
| "truthy (JDict kvs) = (kvs \<noteq> [])"

text \<open>\<open>key in v\<close> for a string \<open>key\<close>.\<close>

fun py_contains :: "ustring \<Rightarrow> json \<Rightarrow> exn + bool" where
  "py_contains key (JDict kvs) = Inr (map_of kvs key \<noteq> None)"
| "py_contains key (JList xs) = Inr (JStr key \<in> set xs)"
| "py_contains key (JStr s) = Inr (is_substr key s)"
| "py_contains key JNull = Inl TypeError"
| "py_contains key (JBool b) = Inl TypeError"
| "py_contains key (JNum n) = Inl TypeError"

text \<open>\<open>v.get(key, default)\<close>: only a \<open>dict\<close> has the method.\<close>

fun py_get :: "json \<Rightarrow> ustring \<Rightarrow> json \<Rightarrow> exn + json" where
  "py_get (JDict kvs) key dflt = Inr (case map_of kvs key of None \<Rightarrow> dflt | Some v \<Rightarrow> v)"
| "py_get JNull key dflt = Inl AttributeError"
| "py_get (JBool b) key dflt = Inl AttributeError"
| "py_get (JNum n) key dflt = Inl AttributeError"
| "py_get (JStr s) key dflt = Inl AttributeError"
| "py_get (JList xs) key dflt = Inl AttributeError"

text \<open>\<open>v[key]\<close> for a string \<open>key\<close>.\<close>

fun py_item :: "json \<Rightarrow> ustring \<Rightarrow> exn + json" where
  "py_item (JDict kvs) key = (case map_of kvs key of None \<Rightarrow> Inl KeyError | Some v \<Rightarrow> Inr v)"
| "py_item JNull key = Inl TypeError"
| "py_item (JBool b) key = Inl TypeError"
| "py_item (JNum n) key = Inl TypeError"
| "py_item (JStr s) key = Inl TypeError"
| "py_item (JList xs) key = Inl TypeError"

section \<open>The outside world\<close>

text \<open>
  A decoded image, as far as the code reads it: \<open>img.size\<close>.
\<close>

record image =
  img_width :: int
  img_height :: int

text \<open>
  Every call that leaves the program is a field of \<open>sys\<close>, a function of the state
  \<open>'w\<close> of the world.  A call that can raise returns a sum or an optional exception;
  \<open>requests_post\<close> and \<open>requests_get\<close> stand for the request followed by
  \<open>.json()\<close> on the response.  \<open>py_repr\<close> is \<open>str\<close> on a value that is not a
  string, and \<open>exn_str\<close> is \<open>str\<close> on an exception.
\<close>

record 'w sys =
  os_getenv :: "string \<Rightarrow> 'w \<Rightarrow> ustring option"
  os_path_exists :: "ustring \<Rightarrow> 'w \<Rightarrow> bool"
  cloudinary_upload :: "ustring \<Rightarrow> 'w \<Rightarrow> (exn + json) \<times> 'w"
  requests_post :: "ustring \<Rightarrow> (string \<times> json) list \<Rightarrow> 'w \<Rightarrow> (exn + json) \<times> 'w"
  requests_get :: "ustring \<Rightarrow> 'w \<Rightarrow> (exn + json) \<times> 'w"
  time_sleep :: "nat \<Rightarrow> 'w \<Rightarrow> 'w"
  image_open :: "ustring \<Rightarrow> 'w \<Rightarrow> exn + image"
  image_crop :: "image \<Rightarrow> int \<times> int \<times> int \<times> int \<Rightarrow> exn + image"
  image_resize :: "image \<Rightarrow> int \<times> int \<Rightarrow> exn + image"
  image_save :: "image \<Rightarrow> ustring \<Rightarrow> 'w \<Rightarrow> exn option \<times> 'w"
  os_remove :: "ustring \<Rightarrow> 'w \<Rightarrow> exn option \<times> 'w"
  py_repr :: "json \<Rightarrow> ustring"
  exn_str :: "exn \<Rightarrow> ustring"

text \<open>
  The calls a run issues are logged in order, next to the state of the world.
\<close>

datatype event =
    ImageOpen ustring
  | ImageCrop image "int \<times> int \<times> int \<times> int"
  | ImageResize image "int \<times> int"
  | ImageSave image ustring
  | Upload ustring
  | HttpPost ustring "(string \<times> json) list"
  | HttpGet ustring
  | Sleep nat
  | FileRemove ustring

type_synonym 'w st = "'w \<times> event list"

definition do_open :: "'w sys \<Rightarrow> ustring \<Rightarrow> 'w st \<Rightarrow> (exn + image) \<times> 'w st" where
  "do_open ops path s = (image_open ops path (fst s), (fst s, snd s @ [ImageOpen path]))"

definition do_crop ::
  "'w sys \<Rightarrow> image \<Rightarrow> int \<times> int \<times> int \<times> int \<Rightarrow> 'w st \<Rightarrow> (exn + image) \<times> 'w st" where
  "do_crop ops img box s = (image_crop ops img box, (fst s, snd s @ [ImageCrop img box]))"

definition do_resize :: "'w sys \<Rightarrow> image \<Rightarrow> int \<times> int \<Rightarrow> 'w st \<Rightarrow> (exn + image) \<times> 'w st" where
  "do_resize ops img dims s = (image_resize ops img dims, (fst s, snd s @ [ImageResize img dims]))"

definition do_save :: "'w sys \<Rightarrow> image \<Rightarrow> ustring \<Rightarrow> 'w st \<Rightarrow> exn option \<times> 'w st" where
  "do_save ops img path s =
     (case image_save ops img path (fst s) of (r, w') \<Rightarrow> (r, (w', snd s @ [ImageSave img path])))"

definition do_upload :: "'w sys \<Rightarrow> ustring \<Rightarrow> 'w st \<Rightarrow> (exn + json) \<times> 'w st" where
  "do_upload ops path s =
     (case cloudinary_upload ops path (fst s) of (r, w') \<Rightarrow> (r, (w', snd s @ [Upload path])))"

definition do_post ::
  "'w sys \<Rightarrow> ustring \<Rightarrow> (string \<times> json) list \<Rightarrow> 'w st \<Rightarrow> (exn + json) \<times> 'w st" where
  "do_post ops url payload s =
     (case requests_post ops url payload (fst s) of
        (r, w') \<Rightarrow> (r, (w', snd s @ [HttpPost url payload])))"

definition do_get :: "'w sys \<Rightarrow> ustring \<Rightarrow> 'w st \<Rightarrow> (exn + json) \<times> 'w st" where
  "do_get ops url s =
     (case requests_get ops url (fst s) of (r, w') \<Rightarrow> (r, (w', snd s @ [HttpGet url])))"

definition do_sleep :: "'w sys \<Rightarrow> nat \<Rightarrow> 'w st \<Rightarrow> 'w st" where
  "do_sleep ops secs s = (time_sleep ops secs (fst s), snd s @ [Sleep secs])"

definition do_remove :: "'w sys \<Rightarrow> ustring \<Rightarrow> 'w st \<Rightarrow> exn option \<times> 'w st" where
  "do_remove ops path s =
     (case os_remove ops path (fst s) of (r, w') \<Rightarrow> (r, (w', snd s @ [FileRemove path])))"

text \<open>\<open>str(v)\<close>, as an f-string formats \<open>v\<close>: a string is its own \<open>str\<close>.\<close>

definition py_str :: "'w sys \<Rightarrow> json \<Rightarrow> ustring" where
  "py_str ops v = (case v of JStr s \<Rightarrow> s | _ \<Rightarrow> py_repr ops v)"

section \<open>\<open>image_generator.py\<close>: the geometry normaliser\<close>

text \<open>Lines 35 to 41 of \<open>resize_for_instagram\<close>: the crop box \<open>(left, top, right, bottom)\<close>.\<close>

definition crop_box :: "int \<Rightarrow> int \<Rightarrow> int \<times> int \<times> int \<times> int" where
  "crop_box width height =
     (let min_dimension = min width height;
          left = (width - min_dimension) div 2;
          top = (height - min_dimension) div 2;
          right = left + min_dimension;
          bottom = top + min_dimension
      in (left, top, right, bottom))"

text \<open>Line 49: the path the resized image is saved at.\<close>

definition resized_path_of :: "ustring \<Rightarrow> ustring" where
  "resized_path_of image_path =
     py_replace (py_replace image_path (u ''.png'') (u ''_instagram.png''))
       (u ''.jpg'') (u ''_instagram.jpg'')"

text \<open>
  The body of the \<open>try\<close> of \<open>resize_for_instagram\<close> (lines 24 to 53).  Line 28 divides
  \<open>width\<close> by \<open>height\<close> and raises on a height of zero; the quotient is not used.
\<close>

definition resize_body :: "'w sys \<Rightarrow> ustring \<Rightarrow> 'w st \<Rightarrow> (exn + ustring) \<times> 'w st" where
  "resize_body ops image_path s =
     (case do_open ops image_path s of
        (Inl e, s1) \<Rightarrow> (Inl e, s1)
      | (Inr img, s1) \<Rightarrow>
          let width = img_width img; height = img_height img in
          if height = 0 then (Inl ZeroDivisionError, s1)
          else
            (case do_crop ops img (crop_box width height) s1 of
               (Inl e, s2) \<Rightarrow> (Inl e, s2)
             | (Inr img_cropped, s2) \<Rightarrow>
                 (case do_resize ops img_cropped (1080, 1080) s2 of
                    (Inl e, s3) \<Rightarrow> (Inl e, s3)
                  | (Inr img_resized, s3) \<Rightarrow>
                      let resized_path = resized_path_of image_path in
                      (case do_save ops img_resized resized_path s3 of
                         (Some e, s4) \<Rightarrow> (Inl e, s4)
                       | (None, s4) \<Rightarrow> (Inr resized_path, s4)))))"

text \<open>
  \<open>resize_for_instagram\<close> (lines 18 to 57): any exception of the body is caught and the
  original path is returned.
\<close>

definition resize_for_instagram :: "'w sys \<Rightarrow> ustring \<Rightarrow> 'w st \<Rightarrow> ustring \<times> 'w st" where
  "resize_for_instagram ops image_path s =
     (case resize_body ops image_path s of
        (Inl e, s1) \<Rightarrow> (image_path, s1)
      | (Inr resized_path, s1) \<Rightarrow> (resized_path, s1))"

section \<open>The Graph API calls shared by the two workflows\<close>

definition graph_base :: ustring where
  "graph_base = u ''https://graph.facebook.com/v21.0/''"

definition media_url :: "ustring \<Rightarrow> ustring" where
  "media_url business_account_id = graph_base @ business_account_id @ u ''/media''"

definition publish_url :: "ustring \<Rightarrow> ustring" where
  "publish_url business_account_id = graph_base @ business_account_id @ u ''/media_publish''"

definition status_url :: "'w sys \<Rightarrow> json \<Rightarrow> ustring \<Rightarrow> ustring" where
  "status_url ops container_id access_token =
     graph_base @ py_str ops container_id @ u ''?fields=status_code&access_token='' @ access_token"

text \<open>The form data of the container call.\<close>

definition media_payload :: "json \<Rightarrow> ustring \<Rightarrow> ustring \<Rightarrow> (string \<times> json) list" where
  "media_payload image_url caption access_token =
     [(''image_url'', image_url), (''caption'', JStr caption),
      (''access_token'', JStr access_token)]"

text \<open>The form data of the publish call.\<close>

definition publish_payload :: "ustring \<Rightarrow> json \<Rightarrow> (string \<times> json) list" where
  "publish_payload access_token container_id =
     [(''creation_id'', container_id), (''access_token'', JStr access_token)]"

text \<open>
  \<open>data.get("error", {}).get("message", str(data))\<close>, the message both workflows put in
  a failure status.
\<close>

definition error_message :: "'w sys \<Rightarrow> json \<Rightarrow> exn + json" where
  "error_message ops data =
     (case py_get data (u ''error'') (JDict []) of
        Inl e \<Rightarrow> Inl e
      | Inr err \<Rightarrow> py_get err (u ''message'') (JStr (py_str ops data)))"

text \<open>\<open>not v\<close> for the result of \<open>os.getenv\<close>: unset or empty.\<close>

definition unset :: "ustring option \<Rightarrow> bool" where
  "unset v \<longleftrightarrow> v = None \<or> v = Some []"

text \<open>A returned \<open>dict\<close>: its keys are literals of the source, in the order written.\<close>

type_synonym result = "(string \<times> json) list"

section \<open>\<open>instagram_poster.py\<close>: the workflow with readiness polling\<close>

definition default_caption :: ustring where
  "default_caption =
     [10024] @ u '' Check out this beautiful handmade creation! '' @ [127912] @
     u '' #handmade #artisan #craft''"

text \<open>
  The loop of lines 62 to 69, \<open>for attempt in range(n)\<close>, with the value of \<open>status\<close>
  so far (\<open>None\<close> while it is unbound).  It returns the value of \<open>status\<close> the loop is
  left with.
\<close>

fun poll :: "'w sys \<Rightarrow> ustring \<Rightarrow> nat \<Rightarrow> json option \<Rightarrow> 'w st \<Rightarrow> (exn + json option) \<times> 'w st" where
  "poll ops url 0 status s = (Inr status, s)"
| "poll ops url (Suc n) status s =
     (case do_get ops url s of
        (Inl e, s1) \<Rightarrow> (Inl e, s1)
      | (Inr status_json, s1) \<Rightarrow>
          (case py_get status_json (u ''status_code'') (JStr []) of
             Inl e \<Rightarrow> (Inl e, s1)
           | Inr status' \<Rightarrow>
               if status' = JStr (u ''FINISHED'') then (Inr (Some status'), s1)
               else poll ops url n (Some status') (do_sleep ops 2 s1)))"

text \<open>
  Lines 78 to 92: the result built from what the publish call yields, an exception or the
  decoded response.
\<close>

definition publish_result :: "'w sys \<Rightarrow> ustring \<Rightarrow> json \<Rightarrow> exn + json \<Rightarrow> exn + result" where
  "publish_result ops caption image_url response =
     (case response of
        Inl e \<Rightarrow> Inl e
      | Inr publish_data \<Rightarrow>
          (case py_contains (u ''id'') publish_data of
             Inl e \<Rightarrow> Inl e
           | Inr False \<Rightarrow>
               (case error_message ops publish_data of
                  Inl e \<Rightarrow> Inl e
                | Inr error_msg \<Rightarrow>
                    Inr [(''post_status'', JStr (u ''Publish failed: '' @ py_str ops error_msg)),
                         (''success'', JBool False)])
           | Inr True \<Rightarrow>
               (case py_item publish_data (u ''id'') of
                  Inl e \<Rightarrow> Inl e
                | Inr media_id \<Rightarrow>
                    Inr [(''post_status'', JStr (u ''Successfully posted to Instagram!'')),
                         (''success'', JBool True),
                         (''media_id'', media_id),
                         (''caption'', JStr caption),
                         (''image_url'', image_url)])))"

text \<open>Lines 74 to 92: the publish call and its result.\<close>

definition publish_container ::
  "'w sys \<Rightarrow> ustring \<Rightarrow> ustring \<Rightarrow> ustring \<Rightarrow> json \<Rightarrow> json \<Rightarrow> 'w st \<Rightarrow> (exn + result) \<times> 'w st" where
  "publish_container ops access_token business_account_id caption image_url container_id s =
     (case do_post ops (publish_url business_account_id)
             (publish_payload access_token container_id) s of
        (response, s1) \<Rightarrow> (publish_result ops caption image_url response, s1))"

text \<open>
  Lines 59 to 92: five polls at most, then the publish call.  The test of line 71 reads
  \<open>status\<close> and only prints.
\<close>

definition poll_and_publish ::
  "'w sys \<Rightarrow> ustring \<Rightarrow> ustring \<Rightarrow> ustring \<Rightarrow> json \<Rightarrow> json \<Rightarrow> 'w st \<Rightarrow> (exn + result) \<times> 'w st" where
  "poll_and_publish ops access_token business_account_id caption image_url container_id s =
     (case poll ops (status_url ops container_id access_token) 5 None s of
        (Inl e, s1) \<Rightarrow> (Inl e, s1)
      | (Inr None, s1) \<Rightarrow> (Inl UnboundLocalError, s1)
      | (Inr (Some status), s1) \<Rightarrow>
          publish_container ops access_token business_account_id caption image_url container_id s1)"

text \<open>Lines 44 to 92: the container is created, then polled and published.\<close>

definition poster_container ::
  "'w sys \<Rightarrow> ustring \<Rightarrow> ustring \<Rightarrow> ustring \<Rightarrow> json \<Rightarrow> 'w st \<Rightarrow> (exn + result) \<times> 'w st" where
  "poster_container ops access_token business_account_id caption image_url s =
     (case do_post ops (media_url business_account_id)
             (media_payload image_url caption access_token) s of
        (Inl e, s2) \<Rightarrow> (Inl e, s2)
      | (Inr upload_data, s2) \<Rightarrow>
          (case py_contains (u ''id'') upload_data of
             Inl e \<Rightarrow> (Inl e, s2)
           | Inr False \<Rightarrow>
               (case error_message ops upload_data of
                  Inl e \<Rightarrow> (Inl e, s2)
                | Inr error_msg \<Rightarrow>
                    (Inr [(''post_status'',
                           JStr (u ''Container creation failed: '' @ py_str ops error_msg)),
                          (''success'', JBool False)], s2))
           | Inr True \<Rightarrow>
               (case py_item upload_data (u ''id'') of
                  Inl e \<Rightarrow> (Inl e, s2)
                | Inr container_id \<Rightarrow>
                    poll_and_publish ops access_token business_account_id caption image_url
                      container_id s2)))"

text \<open>The body of the \<open>try\<close>, lines 35 to 92.\<close>

definition poster_body ::
  "'w sys \<Rightarrow> ustring \<Rightarrow> ustring \<Rightarrow> ustring \<Rightarrow> ustring \<Rightarrow> 'w st \<Rightarrow> (exn + result) \<times> 'w st" where
  "poster_body ops image_path caption access_token business_account_id s =
     (case do_upload ops image_path s of
        (Inl e, s1) \<Rightarrow> (Inl e, s1)
      | (Inr upload_result, s1) \<Rightarrow>
          (case py_get upload_result (u ''secure_url'') JNull of
             Inl e \<Rightarrow> (Inl e, s1)
           | Inr image_url \<Rightarrow>
               if \<not> truthy image_url
               then (Inr [(''post_status'', JStr (u ''Cloudinary upload failed.'')),
                          (''success'', JBool False)], s1)
               else poster_container ops access_token business_account_id caption image_url s1))"

text \<open>
  \<open>instagram_post_run\<close> of \<open>instagram_poster.py\<close> (lines 18 to 98).  The result is a sum
  so that an exception leaving the function would be the value \<open>Inl\<close>.
\<close>

definition poster_instagram_post_run ::
  "'w sys \<Rightarrow> ustring \<Rightarrow> ustring \<Rightarrow> 'w st \<Rightarrow> (exn + result) \<times> 'w st" where
  "poster_instagram_post_run ops image_path caption s =
     (let access_token = os_getenv ops ''INSTAGRAM_ACCESS_TOKEN'' (fst s);
          business_account_id = os_getenv ops ''INSTAGRAM_BUSINESS_ACCOUNT_ID'' (fst s)
      in
      if unset access_token \<or> unset business_account_id
      then (Inr [(''post_status'', JStr (u ''Missing Instagram API credentials.'')),
                 (''success'', JBool False)], s)
      else if image_path = [] \<or> \<not> os_path_exists ops image_path (fst s)
      then (Inr [(''post_status'', JStr (u ''Image file not found: '' @ image_path)),
                 (''success'', JBool False)], s)
      else
        let caption = (if strip caption = [] then default_caption else caption) in
        (case poster_body ops image_path caption (the access_token) (the business_account_id) s of
           (Inl e, s1) \<Rightarrow>
             (Inr [(''post_status'', JStr (u ''Exception: '' @ exn_str ops e)),
                   (''success'', JBool False)], s1)
         | (Inr r, s1) \<Rightarrow> (Inr r, s1)))"

section \<open>\<open>image_generator.py\<close>: the workflow with geometry normalisation\<close>

text \<open>Lines 129 to 135: the clean-up of the resized image; an error of \<open>os.remove\<close> is dropped.\<close>

definition cleanup :: "'w sys \<Rightarrow> ustring \<Rightarrow> ustring \<Rightarrow> 'w st \<Rightarrow> 'w st" where
  "cleanup ops image_path resized_image_path s =
     (if resized_image_path \<noteq> image_path \<and> os_path_exists ops resized_image_path (fst s)
      then snd (do_remove ops resized_image_path s)
      else s)"

text \<open>
  Lines 112 to 142: the publish call, the clean-up and the result.  The clean-up comes
  after the return of the failed publish and before \<open>publish_data["id"]\<close> is read for
  the result.
\<close>

definition generator_publish ::
  "'w sys \<Rightarrow> ustring \<Rightarrow> ustring \<Rightarrow> ustring \<Rightarrow> ustring \<Rightarrow> ustring \<Rightarrow> json \<Rightarrow> json \<Rightarrow> 'w st \<Rightarrow>
     (exn + result) \<times> 'w st" where
  "generator_publish ops image_path resized_image_path caption access_token business_account_id
       image_url container_id s =
     (case do_post ops (publish_url business_account_id)
             (publish_payload access_token container_id) s of
        (Inl e, s3) \<Rightarrow> (Inl e, s3)
      | (Inr publish_data, s3) \<Rightarrow>
          (case py_contains (u ''id'') publish_data of
             Inl e \<Rightarrow> (Inl e, s3)
           | Inr False \<Rightarrow>
               (case error_message ops publish_data of
                  Inl e \<Rightarrow> (Inl e, s3)
                | Inr error_msg \<Rightarrow>
                    (Inr [(''post_status'',
                           JStr (u ''Publish failed: '' @ py_str ops error_msg))], s3))
           | Inr True \<Rightarrow>
               let s4 = cleanup ops image_path resized_image_path s3 in
               (case py_item publish_data (u ''id'') of
                  Inl e \<Rightarrow> (Inl e, s4)
                | Inr media_id \<Rightarrow>
                    (Inr [(''post_status'', JStr (u ''Successfully posted to Instagram!'')),
                          (''media_id'', media_id),
                          (''caption'', JStr caption),
                          (''image_url'', image_url)], s4))))"

text \<open>Lines 94 to 142: the container is created and published.\<close>

definition generator_container ::
  "'w sys \<Rightarrow> ustring \<Rightarrow> ustring \<Rightarrow> ustring \<Rightarrow> ustring \<Rightarrow> ustring \<Rightarrow> json \<Rightarrow> 'w st \<Rightarrow>
     (exn + result) \<times> 'w st" where
  "generator_container ops image_path resized_image_path caption access_token business_account_id
       image_url s =
     (case do_post ops (media_url business_account_id)
             (media_payload image_url caption access_token) s of
        (Inl e, s2) \<Rightarrow> (Inl e, s2)
      | (Inr upload_data, s2) \<Rightarrow>
          (case py_contains (u ''id'') upload_data of
             Inl e \<Rightarrow> (Inl e, s2)
           | Inr False \<Rightarrow>
               (case error_message ops upload_data of
                  Inl e \<Rightarrow> (Inl e, s2)
                | Inr error_msg \<Rightarrow>
                    (Inr [(''post_status'',
                           JStr (u ''Upload failed: '' @ py_str ops error_msg))], s2))
           | Inr True \<Rightarrow>
               (case py_item upload_data (u ''id'') of
                  Inl e \<Rightarrow> (Inl e, s2)
                | Inr container_id \<Rightarrow>
                    generator_publish ops image_path resized_image_path caption access_token
                      business_account_id image_url container_id s2)))"

text \<open>The body of the \<open>try\<close>, lines 80 to 142.\<close>

definition generator_body ::
  "'w sys \<Rightarrow> ustring \<Rightarrow> ustring \<Rightarrow> ustring \<Rightarrow> ustring \<Rightarrow> 'w st \<Rightarrow> (exn + result) \<times> 'w st" where
  "generator_body ops image_path caption access_token business_account_id s =
     (case resize_for_instagram ops image_path s of
        (resized_image_path, s0) \<Rightarrow>
          (case do_upload ops resized_image_path s0 of
             (Inl e, s1) \<Rightarrow> (Inl e, s1)
           | (Inr upload_result, s1) \<Rightarrow>
               (case py_get upload_result (u ''secure_url'') JNull of
                  Inl e \<Rightarrow> (Inl e, s1)
                | Inr image_url \<Rightarrow>
                    if \<not> truthy image_url
                    then (Inr [(''post_status'', JStr (u ''Cloudinary upload failed.''))], s1)
                    else generator_container ops image_path resized_image_path caption
                           access_token business_account_id image_url s1)))"

text \<open>\<open>instagram_post_run\<close> of \<open>image_generator.py\<close> (lines 59 to 146).\<close>

definition generator_instagram_post_run ::
  "'w sys \<Rightarrow> ustring \<Rightarrow> ustring \<Rightarrow> 'w st \<Rightarrow> (exn + result) \<times> 'w st" where
  "generator_instagram_post_run ops image_path caption s =
     (let access_token = os_getenv ops ''INSTAGRAM_ACCESS_TOKEN'' (fst s);
          business_account_id = os_getenv ops ''INSTAGRAM_BUSINESS_ACCOUNT_ID'' (fst s)
      in
      if unset access_token \<or> unset business_account_id
      then (Inr [(''post_status'', JStr (u ''Missing Instagram API credentials.''))], s)
      else if image_path = [] \<or> \<not> os_path_exists ops image_path (fst s)
      then (Inr [(''post_status'', JStr (u ''Image file not found: '' @ image_path))], s)
      else
        (case generator_body ops image_path caption (the access_token) (the business_account_id) s of
           (Inl e, s1) \<Rightarrow> (Inr [(''post_status'', JStr (u ''Exception: '' @ exn_str ops e))], s1)
         | (Inr r, s1) \<Rightarrow> (Inr r, s1)))"

section \<open>\<open>firebase_config.py\<close>\<close>

text \<open>
  The calls of \<open>initialize_firebase\<close>.  \<open>fb_apps\<close> is the truth value of
  \<open>firebase_admin._apps\<close>; \<open>'c\<close> is the credential object.
\<close>

record ('w, 'c) fb_sys =
  fb_apps :: "'w \<Rightarrow> bool"
  fb_getenv :: "string \<Rightarrow> 'w \<Rightarrow> ustring option"
  fb_path_exists :: "ustring \<Rightarrow> 'w \<Rightarrow> bool"
  fb_certificate :: "ustring \<Rightarrow> 'w \<Rightarrow> exn + 'c"
  fb_initialize_app :: "'c \<Rightarrow> (string \<times> ustring) list \<Rightarrow> 'w \<Rightarrow> exn option \<times> 'w"










section \<open>Reading the log of calls\<close>

text \<open>\<open>k\<close> polls that did not see \<open>FINISHED\<close>: a status query and a sleep of 2 seconds each.\<close>

definition rounds :: "ustring \<Rightarrow> nat \<Rightarrow> event list" where
  "rounds url k = concat (replicate k [HttpGet url, Sleep 2])"

text \<open>The publish call of an account, a status query, and the seconds slept in a log.\<close>

definition is_publish :: "ustring \<Rightarrow> event \<Rightarrow> bool" where
  "is_publish business_account_id e =
     (case e of HttpPost url payload \<Rightarrow> url = publish_url business_account_id | _ \<Rightarrow> False)"


definition is_status_query :: "event \<Rightarrow> bool" where
  "is_status_query e = (case e of HttpGet url \<Rightarrow> True | _ \<Rightarrow> False)"

text \<open>
  The calls from the polling stage on: at most five rounds, then either a last status
  query alone, or a last status query and the publish call, or, after five full rounds, the
  publish call.
\<close>

definition poll_publish_log :: "'w sys \<Rightarrow> ustring \<Rightarrow> ustring \<Rightarrow> json \<Rightarrow> event list \<Rightarrow> bool" where
  "poll_publish_log ops access_token business_account_id container_id ext \<longleftrightarrow>
     (\<exists>k\<le>5.
        ext = rounds (status_url ops container_id access_token) k @
                [HttpGet (status_url ops container_id access_token)] \<and> k < 5 \<or>
        ext = rounds (status_url ops container_id access_token) k @
                [HttpGet (status_url ops container_id access_token),
                 HttpPost (publish_url business_account_id)
                   (publish_payload access_token container_id)] \<and> k < 5 \<or>
        ext = rounds (status_url ops container_id access_token) k @
                [HttpPost (publish_url business_account_id)
                   (publish_payload access_token container_id)] \<and> k = 5)"

section \<open>The shapes of the returned records\<close>





text \<open>
  A call that carries a \<open>caption\<close> field carries the given caption; every other call
  passes.
\<close>

definition caption_sent :: "ustring \<Rightarrow> event \<Rightarrow> bool" where
  "caption_sent caption e =
     (case e of
        HttpPost url payload \<Rightarrow>
          map_of payload ''caption'' = None \<or> map_of payload ''caption'' = Some (JStr caption)
      | _ \<Rightarrow> True)"

section \<open>Simulated worlds for the examples\<close>

text \<open>
  A world whose state is the list of the paths of the files that exist.  Every image is
  1920 by 1080; the upload, the two POST calls and the status query answer with the given
  documents; saving creates the file and removing deletes it.
\<close>

definition sim ::
  "(string \<Rightarrow> ustring option) \<Rightarrow> json \<Rightarrow> (ustring \<Rightarrow> json) \<Rightarrow> json \<Rightarrow> (ustring list) sys" where
  "sim env upload_result post_response status_response =
     \<lparr> os_getenv = (\<lambda>name w. env name),
       os_path_exists = (\<lambda>path w. path \<in> set w),
       cloudinary_upload = (\<lambda>path w. (Inr upload_result, w)),
       requests_post = (\<lambda>url payload w. (Inr (post_response url), w)),
       requests_get = (\<lambda>url w. (Inr status_response, w)),
       time_sleep = (\<lambda>secs w. w),
       image_open = (\<lambda>path w. if path \<in> set w then Inr \<lparr>img_width = 1920, img_height = 1080\<rparr>
                                else Inl (Raised ''FileNotFoundError'' path)),
       image_crop = (\<lambda>img box. case box of (l, t, r, b) \<Rightarrow>
                       Inr \<lparr>img_width = r - l, img_height = b - t\<rparr>),
       image_resize = (\<lambda>img dims. Inr \<lparr>img_width = fst dims, img_height = snd dims\<rparr>),
       image_save = (\<lambda>img path w. (None, path # w)),
       os_remove = (\<lambda>path w. (None, removeAll path w)),
       py_repr = (\<lambda>v. u ''<value>''),
       exn_str = (\<lambda>e. case e of Raised cls msg \<Rightarrow> msg | _ \<Rightarrow> u ''<error>'') \<rparr>"

definition env_ok :: "string \<Rightarrow> ustring option" where
  "env_ok name =
     (if name = ''INSTAGRAM_ACCESS_TOKEN'' then Some (u ''tok'')
      else if name = ''INSTAGRAM_BUSINESS_ACCOUNT_ID'' then Some (u ''42'')
      else None)"

definition env_no_token :: "string \<Rightarrow> ustring option" where
  "env_no_token name =
     (if name = ''INSTAGRAM_BUSINESS_ACCOUNT_ID'' then Some (u ''42'') else None)"

definition hosted :: json where
  "hosted = JDict [(u ''secure_url'', JStr (u ''https://host/i.png''))]"

definition with_id :: "ustring \<Rightarrow> json" where
  "with_id url = JDict [(u ''id'', JStr (u ''17''))]"

definition in_progress :: json where
  "in_progress = JDict [(u ''status_code'', JStr (u ''IN_PROGRESS''))]"

definition finished :: json where
  "finished = JDict [(u ''status_code'', JStr (u ''FINISHED''))]"

text \<open>
  A world for \<open>initialize_firebase\<close>: the state tells whether an app is initialised,
  \<open>files\<close> are the paths that exist and \<open>cert\<close> is what loading the certificate yields.
\<close>

definition fb_sim ::
  "(string \<Rightarrow> ustring option) \<Rightarrow> ustring list \<Rightarrow> exn + ustring \<Rightarrow> (bool, ustring) fb_sys" where
  "fb_sim env files cert =
     \<lparr> fb_apps = (\<lambda>w. w),
       fb_getenv = (\<lambda>name w. env name),
       fb_path_exists = (\<lambda>path w. path \<in> set files),
       fb_certificate = (\<lambda>path w. cert),
       fb_initialize_app = (\<lambda>cred options w. (None, True)) \<rparr>"



section \<open>Auxiliary facts\<close>

lemma u_eq_iff [simp]: "u s = u t \<longleftrightarrow> s = t"
  by (simp add: u_def inj_map_eq_map inj_on_def)

lemma u_Nil_iff [simp]: "u s = [] \<longleftrightarrow> s = []"
  by (simp add: u_def)

lemma sim_simps [simp]:
  "os_getenv (sim env ur pr sr) = (\<lambda>name w. env name)"
  "os_path_exists (sim env ur pr sr) = (\<lambda>path w. path \<in> set w)"
  "cloudinary_upload (sim env ur pr sr) = (\<lambda>path w. (Inr ur, w))"
  "requests_post (sim env ur pr sr) = (\<lambda>url payload w. (Inr (pr url), w))"
  "requests_get (sim env ur pr sr) = (\<lambda>url w. (Inr sr, w))"
  "time_sleep (sim env ur pr sr) = (\<lambda>secs w. w)"
  "image_open (sim env ur pr sr) =
     (\<lambda>path w. if path \<in> set w then Inr \<lparr>img_width = 1920, img_height = 1080\<rparr>
               else Inl (Raised ''FileNotFoundError'' path))"
  "image_crop (sim env ur pr sr) =
     (\<lambda>img box. case box of (l, t, r, b) \<Rightarrow> Inr \<lparr>img_width = r - l, img_height = b - t\<rparr>)"
  "image_resize (sim env ur pr sr) =
     (\<lambda>img dims. Inr \<lparr>img_width = fst dims, img_height = snd dims\<rparr>)"
  "image_save (sim env ur pr sr) = (\<lambda>img path w. (None, path # w))"
  "os_remove (sim env ur pr sr) = (\<lambda>path w. (None, removeAll path w))"
  "py_repr (sim env ur pr sr) = (\<lambda>v. u ''<value>'')"
  "exn_str (sim env ur pr sr) = (\<lambda>e. case e of Raised cls msg \<Rightarrow> msg | _ \<Rightarrow> u ''<error>'')"
  by (simp_all add: sim_def)

lemma fb_sim_simps [simp]:
  "fb_apps (fb_sim env files cert) = (\<lambda>w. w)"
  "fb_getenv (fb_sim env files cert) = (\<lambda>name w. env name)"
  "fb_path_exists (fb_sim env files cert) = (\<lambda>path w. path \<in> set files)"
  "fb_certificate (fb_sim env files cert) = (\<lambda>path w. cert)"
  "fb_initialize_app (fb_sim env files cert) = (\<lambda>cred options w. (None, True))"
  by (simp_all add: fb_sim_def)

lemmas call_defs =
  do_open_def do_crop_def do_resize_def do_save_def do_upload_def do_post_def do_get_def
  do_sleep_def do_remove_def

section \<open>The geometry normaliser\<close>

text \<open>
  Claim C6.  For an image of width \<open>W > 0\<close> and height \<open>H > 0\<close>,
  \<open>resize_for_instagram\<close> takes \<open>m = min W H\<close>, crops the box
  \<open>(left, top, left + m, top + m)\<close> with \<open>left = (W - m) div 2\<close> and
  \<open>top = (H - m) div 2\<close>, which lies inside the frame, and resizes the crop to
  \<open>(1080, 1080)\<close>; the resized image is saved.  For \<open>W = H\<close> the box is the whole
  frame, \<open>left = top = 0\<close>.
\<close>

theorem crop_centered_and_resized:
  assumes "0 < W" and "0 < H"
    and "image_open ops image_path (fst s) = Inr img"
    and "img_width img = W" and "img_height img = H"
  shows "\<exists>left top m r s'.
           m = min W H \<and> left = (W - m) div 2 \<and> top = (H - m) div 2 \<and>
           crop_box W H = (left, top, left + m, top + m) \<and>
           0 \<le> left \<and> left + m \<le> W \<and> 0 \<le> top \<and> top + m \<le> H \<and>
           (W = H \<longrightarrow> left = 0 \<and> top = 0 \<and> crop_box W H = (0, 0, W, H)) \<and>
           resize_body ops image_path s = (r, s') \<and>
           take 2 (drop (length (snd s)) (snd s')) =
             [ImageOpen image_path, ImageCrop img (left, top, left + m, top + m)] \<and>
           (\<forall>img_cropped. image_crop ops img (left, top, left + m, top + m) = Inr img_cropped \<longrightarrow>
              take 3 (drop (length (snd s)) (snd s')) =
                [ImageOpen image_path, ImageCrop img (left, top, left + m, top + m),
                 ImageResize img_cropped (1080, 1080)]) \<and>
           (\<forall>img_cropped img_resized.
              image_crop ops img (left, top, left + m, top + m) = Inr img_cropped \<and>
              image_resize ops img_cropped (1080, 1080) = Inr img_resized \<longrightarrow>
              drop (length (snd s)) (snd s') =
                [ImageOpen image_path, ImageCrop img (left, top, left + m, top + m),
                 ImageResize img_cropped (1080, 1080),
                 ImageSave img_resized (resized_path_of image_path)])"
proof -
  define m where "m = min W H"
  define left where "left = (W - m) div 2"
  define top where "top = (H - m) div 2"
  have box: "crop_box W H = (left, top, left + m, top + m)"
    by (simp add: crop_box_def Let_def m_def left_def top_def)
  have bounds: "0 \<le> left" "left + m \<le> W" "0 \<le> top" "top + m \<le> H"
    using assms(1,2) by (auto simp: m_def left_def top_def min_def)
  have square: "W = H \<longrightarrow> left = 0 \<and> top = 0 \<and> crop_box W H = (0, 0, W, H)"
    by (simp add: crop_box_def Let_def m_def left_def top_def)
  have H0: "img_height img \<noteq> 0" using assms(2,5) by simp
  obtain r s' where run: "resize_body ops image_path s = (r, s')"
    by (cases "resize_body ops image_path s") auto
  have ev2: "take 2 (drop (length (snd s)) (snd s')) =
             [ImageOpen image_path, ImageCrop img (left, top, left + m, top + m)]"
    using run assms(3,4,5) H0 box
    by (auto simp: resize_body_def call_defs Let_def split: sum.splits prod.splits option.splits)
  have ev3: "\<forall>img_cropped. image_crop ops img (left, top, left + m, top + m) = Inr img_cropped \<longrightarrow>
              take 3 (drop (length (snd s)) (snd s')) =
                [ImageOpen image_path, ImageCrop img (left, top, left + m, top + m),
                 ImageResize img_cropped (1080, 1080)]"
    using run assms(3,4,5) H0 box
    by (auto simp: resize_body_def call_defs Let_def split: sum.splits prod.splits option.splits)
  have ev4: "\<forall>img_cropped img_resized.
              image_crop ops img (left, top, left + m, top + m) = Inr img_cropped \<and>
              image_resize ops img_cropped (1080, 1080) = Inr img_resized \<longrightarrow>
              drop (length (snd s)) (snd s') =
                [ImageOpen image_path, ImageCrop img (left, top, left + m, top + m),
                 ImageResize img_cropped (1080, 1080),
                 ImageSave img_resized (resized_path_of image_path)]"
    using run assms(3,4,5) H0 box
    by (auto simp: resize_body_def call_defs Let_def split: sum.splits prod.splits option.splits)
  show ?thesis
    using box bounds square run ev2 ev3 ev4 m_def left_def top_def by blast
qed

text \<open>The theorem at a 1920 by 1080 image: the box is \<open>(420, 0, 1500, 1080)\<close>.\<close>

theorem crop_centered_and_resized_witness:
  "image_open (sim env_ok hosted with_id in_progress) (u ''a.png'') (fst ([u ''a.png''], [])) =
     Inr \<lparr>img_width = 1920, img_height = 1080\<rparr> \<and>
   crop_box 1920 1080 = (420, 0, 1500, 1080)"
proof -
  let ?ops = "sim env_ok hosted with_id in_progress"
  let ?img = "\<lparr>img_width = 1920, img_height = 1080\<rparr>"
  have h1: "(0::int) < 1920" and h2: "(0::int) < 1080" by simp_all
  have h3: "image_open ?ops (u ''a.png'') (fst ([u ''a.png''], [])) = Inr ?img" by simp
  have h4: "img_width ?img = 1920" and h5: "img_height ?img = 1080" by simp_all
  from crop_centered_and_resized [OF h1 h2 h3 h4 h5]
  have "crop_box 1920 1080 = (420, 0, 1500, 1080)" by auto
  with h3 show ?thesis by simp
qed

section \<open>Input validation\<close>

text \<open>
  Claim C5.  When the access token or the business account id is unset or empty, both
  workflows return at once the result whose status is the missing-credentials message (with
  \<open>success\<close> false in \<open>instagram_poster.py\<close>); the log of calls and the world are
  unchanged, so no upload, container, status or publish call is made.
\<close>

theorem missing_credentials_no_calls:
  assumes "unset (os_getenv ops ''INSTAGRAM_ACCESS_TOKEN'' (fst s)) \<or>
           unset (os_getenv ops ''INSTAGRAM_BUSINESS_ACCOUNT_ID'' (fst s))"
  shows "poster_instagram_post_run ops image_path caption s =
           (Inr [(''post_status'', JStr (u ''Missing Instagram API credentials.'')),
                 (''success'', JBool False)], s) \<and>
         generator_instagram_post_run ops image_path caption s =
           (Inr [(''post_status'', JStr (u ''Missing Instagram API credentials.''))], s)"
  using assms
  by (auto simp: poster_instagram_post_run_def generator_instagram_post_run_def Let_def)

text \<open>The theorem in a world without an access token.\<close>

theorem missing_credentials_no_calls_witness:
  "unset (os_getenv (sim env_no_token hosted with_id finished) ''INSTAGRAM_ACCESS_TOKEN''
            (fst ([u ''a.png''], []))) \<and>
   poster_instagram_post_run (sim env_no_token hosted with_id finished) (u ''a.png'') (u ''hi'')
       ([u ''a.png''], []) =
     (Inr [(''post_status'', JStr (u ''Missing Instagram API credentials.'')),
           (''success'', JBool False)], ([u ''a.png''], []))"
proof -
  let ?ops = "sim env_no_token hosted with_id finished"
  have h: "unset (os_getenv ?ops ''INSTAGRAM_ACCESS_TOKEN'' (fst ([u ''a.png''], [])))"
    by (simp add: unset_def env_no_token_def)
  then have "unset (os_getenv ?ops ''INSTAGRAM_ACCESS_TOKEN'' (fst ([u ''a.png''], []))) \<or>
             unset (os_getenv ?ops ''INSTAGRAM_BUSINESS_ACCOUNT_ID'' (fst ([u ''a.png''], [])))" ..
  from missing_credentials_no_calls [OF this, of "u ''a.png''" "u ''hi''"] h
  show ?thesis by simp
qed

section \<open>The derived file\<close>

lemma resized_png: "resized_path_of (u ''a.png'') = u ''a_instagram.png''"
  by (simp add: resized_path_of_def py_replace_def u_def)

lemma resized_jpeg: "resized_path_of (u ''photo.jpeg'') = u ''photo.jpeg''"
  by (simp add: resized_path_of_def py_replace_def u_def)

text \<open>
  Claim C7.  The comment of line 48 says \<open>Save to new file\<close>, but the path of line 49 is
  the original path whenever that contains neither \<open>.png\<close> nor \<open>.jpg\<close>.  For
  \<open>photo.jpeg\<close> the resized image is saved at \<open>photo.jpeg\<close> itself, and the path
  returned is the original one.
\<close>

theorem resize_overwrites_original:
  "resize_for_instagram (sim env_ok hosted with_id finished) (u ''photo.jpeg'')
       ([u ''photo.jpeg''], []) =
     (u ''photo.jpeg'',
      ([u ''photo.jpeg'', u ''photo.jpeg''],
       [ImageOpen (u ''photo.jpeg''),
        ImageCrop \<lparr>img_width = 1920, img_height = 1080\<rparr> (420, 0, 1500, 1080),
        ImageResize \<lparr>img_width = 1080, img_height = 1080\<rparr> (1080, 1080),
        ImageSave \<lparr>img_width = 1080, img_height = 1080\<rparr> (u ''photo.jpeg'')]))"
  by (simp add: resize_for_instagram_def resize_body_def call_defs crop_box_def Let_def
        resized_jpeg)

text \<open>
  Claim C8.  The clean-up of lines 129 to 135 stands after the early returns of the failure
  paths.  When the upload returns no \<open>secure_url\<close>, the run of \<open>image_generator.py\<close>
  ends with the failure result, no \<open>os.remove\<close> was called and the resized file
  \<open>a_instagram.png\<close> still exists.
\<close>

theorem failed_upload_leaves_resized_file:
  "generator_instagram_post_run (sim env_ok (JDict []) with_id finished) (u ''a.png'') (u ''hi'')
       ([u ''a.png''], []) =
     (Inr [(''post_status'', JStr (u ''Cloudinary upload failed.''))],
      ([u ''a_instagram.png'', u ''a.png''],
       [ImageOpen (u ''a.png''),
        ImageCrop \<lparr>img_width = 1920, img_height = 1080\<rparr> (420, 0, 1500, 1080),
        ImageResize \<lparr>img_width = 1080, img_height = 1080\<rparr> (1080, 1080),
        ImageSave \<lparr>img_width = 1080, img_height = 1080\<rparr> (u ''a_instagram.png''),
        Upload (u ''a_instagram.png'')]))"
  by (simp add: generator_instagram_post_run_def generator_body_def resize_for_instagram_def
        resize_body_def call_defs crop_box_def Let_def resized_png unset_def env_ok_def)

section \<open>The readiness poll\<close>

lemma rounds_Suc: "rounds url (Suc k) = HttpGet url # Sleep 2 # rounds url k"
  by (simp add: rounds_def)

lemma rounds_0: "rounds url 0 = []"
  by (simp add: rounds_def)

lemma poll_shape:
  assumes "poll ops url n st s = (r, s1)" and "st \<noteq> Some (JStr (u ''FINISHED''))"
  shows "\<exists>k\<le>n. (case r of
                   Inl e \<Rightarrow> k < n \<and> snd s1 = snd s @ rounds url k @ [HttpGet url]
                 | Inr st' \<Rightarrow>
                     if st' = Some (JStr (u ''FINISHED''))
                     then k < n \<and> snd s1 = snd s @ rounds url k @ [HttpGet url]
                     else k = n \<and> snd s1 = snd s @ rounds url n)"
  using assms
proof (induction n arbitrary: st s)
  case 0
  then show ?case by (auto simp: rounds_0)
next
  case (Suc n)
  obtain x s' where g: "do_get ops url s = (x, s')" by (cases "do_get ops url s") auto
  have tr: "snd s' = snd s @ [HttpGet url]"
    using g by (auto simp: do_get_def split: prod.splits)
  show ?case
  proof (cases x)
    case (Inl e)
    with Suc.prems g tr show ?thesis
      by (intro exI[of _ 0]) (auto simp: rounds_0)
  next
    case (Inr status_json)
    show ?thesis
    proof (cases "py_get status_json (u ''status_code'') (JStr [])")
      case (Inl e)
      with Suc.prems g tr Inr show ?thesis
        by (intro exI[of _ 0]) (auto simp: rounds_0)
    next
      case inner: (Inr status')
      show ?thesis
      proof (cases "status' = JStr (u ''FINISHED'')")
        case True
        with Suc.prems g tr Inr inner show ?thesis
          by (intro exI[of _ 0]) (auto simp: rounds_0)
      next
        case False
        let ?s2 = "do_sleep ops 2 s'"
        have rec: "poll ops url n (Some status') ?s2 = (r, s1)"
          using Suc.prems(1) g Inr inner False by simp
        have ne: "Some status' \<noteq> Some (JStr (u ''FINISHED''))" using False by simp
        have tr2: "snd ?s2 = snd s @ [HttpGet url, Sleep 2]"
          using tr by (simp add: do_sleep_def)
        from Suc.IH [OF rec ne] obtain k where k: "k \<le> n"
          and sh: "(case r of
                   Inl e \<Rightarrow> k < n \<and> snd s1 = snd ?s2 @ rounds url k @ [HttpGet url]
                 | Inr st' \<Rightarrow>
                     if st' = Some (JStr (u ''FINISHED''))
                     then k < n \<and> snd s1 = snd ?s2 @ rounds url k @ [HttpGet url]
                     else k = n \<and> snd s1 = snd ?s2 @ rounds url n)" by blast
        show ?thesis
          using k sh tr2
          by (intro exI[of _ "Suc k"]) (auto simp: rounds_Suc split: sum.splits if_splits)
      qed
    qed
  qed
qed






lemma poll_bound_status:
  assumes "poll ops url n st s = (Inr st', s1)" and "st \<noteq> None \<or> 0 < n"
  shows "st' \<noteq> None"
  using assms
proof (induction n arbitrary: st s)
  case 0
  then show ?case by auto
next
  case (Suc n)
  then show ?case
    by (auto split: prod.splits sum.splits if_splits)
qed




section \<open>The calls of each stage\<close>

lemma media_ne_publish: "media_url x \<noteq> publish_url y"
proof
  assume "media_url x = publish_url y"
  then have "last (media_url x) = last (publish_url y)" by simp
  then show False by (simp add: media_url_def publish_url_def u_def)
qed

lemma resize_queries:
  "filter is_status_query (snd (snd (resize_for_instagram ops p s))) = filter is_status_query (snd s)"
  by (simp add: resize_for_instagram_def resize_body_def call_defs Let_def is_status_query_def
      split: prod.split sum.split option.split)

lemma cleanup_queries:
  "filter is_status_query (snd (cleanup ops p q s)) = filter is_status_query (snd s)"
  by (simp add: cleanup_def do_remove_def is_status_query_def split: prod.split)

lemma generator_publish_queries:
  "filter is_status_query (snd (snd (generator_publish ops p q c t b img cid s))) =
   filter is_status_query (snd s)"
  by (simp add: generator_publish_def do_post_def Let_def is_status_query_def cleanup_queries
      split: prod.split sum.split bool.split)

lemma generator_container_queries:
  "filter is_status_query (snd (snd (generator_container ops p q c t b img s))) =
   filter is_status_query (snd s)"
  by (simp add: generator_container_def do_post_def is_status_query_def generator_publish_queries
      split: prod.split sum.split bool.split)


lemma generator_body_queries:
  "filter is_status_query (snd (snd (generator_body ops p c t b s))) = filter is_status_query (snd s)"
proof -
  obtain q s0 where r: "resize_for_instagram ops p s = (q, s0)"
    by (cases "resize_for_instagram ops p s") auto
  have s0: "filter is_status_query (snd s0) = filter is_status_query (snd s)"
    using resize_queries [of ops p s] r by simp
  show ?thesis
    unfolding generator_body_def r
    by (simp add: s0 do_upload_def is_status_query_def generator_container_queries
        split: prod.split sum.split)
qed

lemma generator_run_state:
  "snd (generator_instagram_post_run ops p c s) = s \<or>
   snd (generator_instagram_post_run ops p c s) =
     snd (generator_body ops p c (the (os_getenv ops ''INSTAGRAM_ACCESS_TOKEN'' (fst s)))
            (the (os_getenv ops ''INSTAGRAM_BUSINESS_ACCOUNT_ID'' (fst s))) s)"
  by (cases "generator_body ops p c (the (os_getenv ops ''INSTAGRAM_ACCESS_TOKEN'' (fst s)))
            (the (os_getenv ops ''INSTAGRAM_BUSINESS_ACCOUNT_ID'' (fst s))) s")
     (simp add: generator_instagram_post_run_def Let_def split: sum.split)

lemma generator_queries:
  "filter is_status_query (snd (snd (generator_instagram_post_run ops p c s))) =
   filter is_status_query (snd s)"
  using generator_run_state [of ops p c s] generator_body_queries [of ops p c _ _ s]
  by auto

lemma publish_url_inj: "publish_url x = publish_url y \<longleftrightarrow> x = y"
  by (simp add: publish_url_def)

lemma poll_and_publish_events:
  "\<exists>ext. snd (snd (poll_and_publish ops t b c img cid s)) = snd s @ ext \<and>
         poll_publish_log ops t b cid ext"
proof -
  let ?url = "status_url ops cid t"
  obtain r s1 where p: "poll ops ?url 5 None s = (r, s1)"
    by (cases "poll ops ?url 5 None s") auto
  from poll_shape [OF p] obtain k where k: "k \<le> 5"
    and sh: "(case r of
                Inl e \<Rightarrow> k < 5 \<and> snd s1 = snd s @ rounds ?url k @ [HttpGet ?url]
              | Inr st' \<Rightarrow>
                  if st' = Some (JStr (u ''FINISHED''))
                  then k < 5 \<and> snd s1 = snd s @ rounds ?url k @ [HttpGet ?url]
                  else k = 5 \<and> snd s1 = snd s @ rounds ?url 5)"
    by blast
  show ?thesis
  proof (cases r)
    case (Inl e)
    with sh p k show ?thesis
      unfolding poll_publish_log_def
      by (intro exI[of _ "rounds ?url k @ [HttpGet ?url]"] conjI exI[of _ k])
         (simp_all add: poll_and_publish_def)
  next
    case (Inr status)
    have "status \<noteq> None" using poll_bound_status [of ops ?url 5 None s status s1] p Inr by simp
    then obtain st where st: "status = Some st" by auto
    have pp: "snd (snd (poll_and_publish ops t b c img cid s)) =
                snd s1 @ [HttpPost (publish_url b) (publish_payload t cid)]"
      using p Inr st
      by (simp add: poll_and_publish_def publish_container_def do_post_def split: prod.splits)
    show ?thesis
    proof (cases "status = Some (JStr (u ''FINISHED''))")
      case True
      with Inr sh pp k show ?thesis
        unfolding poll_publish_log_def
        by (intro exI[of _ "rounds ?url k @ [HttpGet ?url,
              HttpPost (publish_url b) (publish_payload t cid)]"] conjI exI[of _ k])
           simp_all
    next
      case False
      with Inr sh pp k show ?thesis
        unfolding poll_publish_log_def
        by (intro exI[of _ "rounds ?url k @
              [HttpPost (publish_url b) (publish_payload t cid)]"] conjI exI[of _ k])
           simp_all
    qed
  qed
qed

lemma poster_container_events:
  "\<exists>ext. snd (snd (poster_container ops t b c img s)) =
           snd s @ HttpPost (media_url b) (media_payload img c t) # ext \<and>
         (ext = [] \<or> (\<exists>cid. poll_publish_log ops t b cid ext))"
proof -
  obtain x s2 where g: "do_post ops (media_url b) (media_payload img c t) s = (x, s2)"
    by (cases "do_post ops (media_url b) (media_payload img c t) s") auto
  have tr: "snd s2 = snd s @ [HttpPost (media_url b) (media_payload img c t)]"
    using g by (auto simp: do_post_def split: prod.splits)
  have "snd (poster_container ops t b c img s) = s2 \<or>
        (\<exists>cid. snd (poster_container ops t b c img s) = snd (poll_and_publish ops t b c img cid s2))"
    unfolding poster_container_def g
    by (auto split: sum.split bool.split)
  then show ?thesis
  proof
    assume "snd (poster_container ops t b c img s) = s2"
    with tr show ?thesis by simp
  next
    assume "\<exists>cid. snd (poster_container ops t b c img s) = snd (poll_and_publish ops t b c img cid s2)"
    then obtain cid where e: "snd (poster_container ops t b c img s) =
        snd (poll_and_publish ops t b c img cid s2)" ..
    from poll_and_publish_events [of ops t b c img cid s2] obtain ext where
      "snd (snd (poll_and_publish ops t b c img cid s2)) = snd s2 @ ext"
      "poll_publish_log ops t b cid ext" by blast
    with e tr show ?thesis by auto
  qed
qed

lemma poster_body_events:
  "\<exists>ext. snd (snd (poster_body ops p c t b s)) = snd s @ Upload p # ext \<and>
         (ext = [] \<or>
          (\<exists>img ext'. ext = HttpPost (media_url b) (media_payload img c t) # ext' \<and>
             (ext' = [] \<or> (\<exists>cid. poll_publish_log ops t b cid ext'))))"
proof -
  obtain x s1 where g: "do_upload ops p s = (x, s1)"
    by (cases "do_upload ops p s") auto
  have tr: "snd s1 = snd s @ [Upload p]"
    using g by (auto simp: do_upload_def split: prod.splits)
  have "snd (poster_body ops p c t b s) = s1 \<or>
        (\<exists>img. snd (poster_body ops p c t b s) = snd (poster_container ops t b c img s1))"
    unfolding poster_body_def g
    by (auto split: sum.split)
  then show ?thesis
  proof
    assume "snd (poster_body ops p c t b s) = s1"
    with tr show ?thesis by simp
  next
    assume "\<exists>img. snd (poster_body ops p c t b s) = snd (poster_container ops t b c img s1)"
    then obtain img where e: "snd (poster_body ops p c t b s) =
        snd (poster_container ops t b c img s1)" ..
    from poster_container_events [of ops t b c img s1] obtain ext where
      "snd (snd (poster_container ops t b c img s1)) =
         snd s1 @ HttpPost (media_url b) (media_payload img c t) # ext"
      "ext = [] \<or> (\<exists>cid. poll_publish_log ops t b cid ext)" by blast
    with e tr show ?thesis by auto
  qed
qed

lemma poster_run_state:
  "snd (poster_instagram_post_run ops p c s) = s \<or>
   snd (poster_instagram_post_run ops p c s) =
     snd (poster_body ops p (if strip c = [] then default_caption else c)
            (the (os_getenv ops ''INSTAGRAM_ACCESS_TOKEN'' (fst s)))
            (the (os_getenv ops ''INSTAGRAM_BUSINESS_ACCOUNT_ID'' (fst s))) s)"
  by (cases "poster_body ops p (if strip c = [] then default_caption else c)
            (the (os_getenv ops ''INSTAGRAM_ACCESS_TOKEN'' (fst s)))
            (the (os_getenv ops ''INSTAGRAM_BUSINESS_ACCOUNT_ID'' (fst s))) s")
     (simp add: poster_instagram_post_run_def Let_def split: sum.split)

section \<open>Publish calls in the log\<close>

lemma is_publish_simps [simp]:
  "is_publish b (HttpPost (publish_url b') pl) \<longleftrightarrow> b' = b"
  "\<not> is_publish b (HttpPost (media_url b') pl)"
  "\<not> is_publish b (HttpGet url)"
  "\<not> is_publish b (Sleep n)"
  "\<not> is_publish b (Upload p)"
  using media_ne_publish [of b' b]
  by (auto simp: is_publish_def publish_url_inj)

lemma takeWhile_rounds:
  "takeWhile (\<lambda>e. \<not> is_publish b e) (rounds url k @ xs) =
   rounds url k @ takeWhile (\<lambda>e. \<not> is_publish b e) xs"
  by (induction k) (simp_all add: rounds_0 rounds_Suc)

lemma list_ex_rounds:
  "list_ex (is_publish b) (rounds url k @ xs) = list_ex (is_publish b) xs"
  by (induction k) (simp_all add: rounds_0 rounds_Suc)

lemma list_ex_rounds_only: "\<not> list_ex (is_publish b) (rounds url k)"
  using list_ex_rounds [of b url k "[]"] by simp

lemma get_in_rounds: "0 < k \<Longrightarrow> HttpGet url \<in> set (rounds url k)"
  by (cases k) (simp_all add: rounds_Suc)

lemma poll_publish_log_guarded:
  assumes "poll_publish_log ops t b cid ext" and "list_ex (is_publish b') (pre @ ext)"
    and "\<not> list_ex (is_publish b') pre"
  shows "HttpPost (publish_url b') (publish_payload t cid) \<in> set (pre @ ext) \<and>
         HttpGet (status_url ops cid t) \<in> set (takeWhile (\<lambda>e. \<not> is_publish b' e) (pre @ ext))"
proof -
  have pre: "\<forall>e\<in>set pre. \<not> is_publish b' e"
    using assms(3) by (simp add: list_ex_iff)
  have tw: "takeWhile (\<lambda>e. \<not> is_publish b' e) (pre @ ext) =
            pre @ takeWhile (\<lambda>e. \<not> is_publish b' e) ext"
    using pre by (simp add: takeWhile_append2)
  have ex: "list_ex (is_publish b') ext"
    using assms(2,3) by (simp add: list_ex_iff) blast
  from assms(1) obtain k where "k \<le> 5" and
    "ext = rounds (status_url ops cid t) k @ [HttpGet (status_url ops cid t)] \<and> k < 5 \<or>
     ext = rounds (status_url ops cid t) k @
             [HttpGet (status_url ops cid t),
              HttpPost (publish_url b) (publish_payload t cid)] \<and> k < 5 \<or>
     ext = rounds (status_url ops cid t) k @
             [HttpPost (publish_url b) (publish_payload t cid)] \<and> k = 5"
    unfolding poll_publish_log_def by blast
  then show ?thesis
    using ex unfolding tw
    by (auto simp: takeWhile_rounds list_ex_rounds list_ex_rounds_only get_in_rounds)
qed


section \<open>Two complete runs\<close>

text \<open>
  Both workflows in the simulated world where every call succeeds and the status is
  \<open>FINISHED\<close>.
\<close>

lemma strip_hi: "strip (u ''hi'') = u ''hi''"
  by (simp add: strip_def is_space_def u_def)

lemma poster_demo_run:
  "poster_instagram_post_run (sim env_ok hosted with_id finished) (u ''a.png'') (u ''hi'')
       ([u ''a.png''], []) =
     (Inr [(''post_status'', JStr (u ''Successfully posted to Instagram!'')),
           (''success'', JBool True),
           (''media_id'', JStr (u ''17'')),
           (''caption'', JStr (u ''hi'')),
           (''image_url'', JStr (u ''https://host/i.png''))],
      ([u ''a.png''],
       [Upload (u ''a.png''),
        HttpPost (media_url (u ''42''))
          (media_payload (JStr (u ''https://host/i.png'')) (u ''hi'') (u ''tok'')),
        HttpGet (status_url (sim env_ok hosted with_id finished) (JStr (u ''17'')) (u ''tok'')),
        HttpPost (publish_url (u ''42'')) (publish_payload (u ''tok'') (JStr (u ''17'')))]))"
  by (simp add: poster_instagram_post_run_def poster_body_def poster_container_def
        poll_and_publish_def publish_container_def publish_result_def call_defs Let_def
        unset_def env_ok_def hosted_def with_id_def finished_def strip_hi eval_nat_numeral)

lemma generator_demo_run:
  "generator_instagram_post_run (sim env_ok hosted with_id finished) (u ''a.png'') (u ''hi'')
       ([u ''a.png''], []) =
     (Inr [(''post_status'', JStr (u ''Successfully posted to Instagram!'')),
           (''media_id'', JStr (u ''17'')),
           (''caption'', JStr (u ''hi'')),
           (''image_url'', JStr (u ''https://host/i.png''))],
      ([u ''a.png''],
       [ImageOpen (u ''a.png''),
        ImageCrop \<lparr>img_width = 1920, img_height = 1080\<rparr> (420, 0, 1500, 1080),
        ImageResize \<lparr>img_width = 1080, img_height = 1080\<rparr> (1080, 1080),
        ImageSave \<lparr>img_width = 1080, img_height = 1080\<rparr> (u ''a_instagram.png''),
        Upload (u ''a_instagram.png''),
        HttpPost (media_url (u ''42''))
          (media_payload (JStr (u ''https://host/i.png'')) (u ''hi'') (u ''tok'')),
        HttpPost (publish_url (u ''42'')) (publish_payload (u ''tok'') (JStr (u ''17''))),
        FileRemove (u ''a_instagram.png'')]))"
  by (simp add: generator_instagram_post_run_def generator_body_def generator_container_def
        generator_publish_def cleanup_def resize_for_instagram_def resize_body_def call_defs
        crop_box_def Let_def resized_png unset_def env_ok_def hosted_def with_id_def)

section \<open>Readiness check before publishing\<close>

text \<open>
  Claim C2, as amended.  In a run of the workflow of \<open>instagram_poster.py\<close>, whenever
  the log holds a publish call of an account, it holds the publish call of a container, and
  a status query on that same container stands before the first publish call.  The
  workflow of \<open>image_generator.py\<close> has no readiness check: its runs issue no status
  query.
\<close>

theorem publish_preceded_by_status_check:
  "(\<forall>b. list_ex (is_publish b) (snd (snd (poster_instagram_post_run ops image_path caption (w, []))))
       \<longrightarrow>
       (\<exists>container_id access_token.
          HttpPost (publish_url b) (publish_payload access_token container_id)
            \<in> set (snd (snd (poster_instagram_post_run ops image_path caption (w, [])))) \<and>
          HttpGet (status_url ops container_id access_token)
            \<in> set (takeWhile (\<lambda>e. \<not> is_publish b e)
                      (snd (snd (poster_instagram_post_run ops image_path caption (w, []))))))) \<and>
   filter is_status_query
     (snd (snd (generator_instagram_post_run ops image_path caption (w, [])))) = []"
proof (intro conjI allI impI)
  show "filter is_status_query
     (snd (snd (generator_instagram_post_run ops image_path caption (w, [])))) = []"
    using generator_queries [of ops image_path caption "(w, [])"] by simp
next
  fix b
  let ?ev = "snd (snd (poster_instagram_post_run ops image_path caption (w, [])))"
  let ?c = "if strip caption = [] then default_caption else caption"
  let ?t = "the (os_getenv ops ''INSTAGRAM_ACCESS_TOKEN'' w)"
  let ?b = "the (os_getenv ops ''INSTAGRAM_BUSINESS_ACCOUNT_ID'' w)"
  assume ex: "list_ex (is_publish b) ?ev"
  from poster_run_state [of ops image_path caption "(w, [])"]
  have "?ev = [] \<or> ?ev = snd (snd (poster_body ops image_path ?c ?t ?b (w, [])))"
    by auto
  with ex have ev: "?ev = snd (snd (poster_body ops image_path ?c ?t ?b (w, [])))"
    by auto
  from poster_body_events [of ops image_path ?c ?t ?b "(w, [])"]
  obtain ext where e1: "?ev = Upload image_path # ext"
    and e2: "ext = [] \<or>
          (\<exists>img ext'. ext = HttpPost (media_url ?b) (media_payload img ?c ?t) # ext' \<and>
             (ext' = [] \<or> (\<exists>cid. poll_publish_log ops ?t ?b cid ext')))"
    unfolding ev by auto
  from e1 e2 ex obtain img ext' cid where
    e3: "?ev = [Upload image_path, HttpPost (media_url ?b) (media_payload img ?c ?t)] @ ext'"
    and log: "poll_publish_log ops ?t ?b cid ext'"
    by auto
  have "HttpPost (publish_url b) (publish_payload ?t cid) \<in> set ?ev \<and>
        HttpGet (status_url ops cid ?t) \<in> set (takeWhile (\<lambda>e. \<not> is_publish b e) ?ev)"
    unfolding e3
    by (rule poll_publish_log_guarded [OF log]) (use ex e3 in simp_all)
  then show "\<exists>container_id access_token.
          HttpPost (publish_url b) (publish_payload access_token container_id) \<in> set ?ev \<and>
          HttpGet (status_url ops container_id access_token)
            \<in> set (takeWhile (\<lambda>e. \<not> is_publish b e) ?ev)"
    by blast
qed

text \<open>The theorem at the complete run of \<open>instagram_poster.py\<close>, which publishes.\<close>

theorem publish_preceded_by_status_check_witness:
  "list_ex (is_publish (u ''42''))
     (snd (snd (poster_instagram_post_run (sim env_ok hosted with_id finished) (u ''a.png'')
                  (u ''hi'') ([u ''a.png''], [])))) \<and>
   (\<exists>container_id access_token.
      HttpGet (status_url (sim env_ok hosted with_id finished) container_id access_token)
        \<in> set (takeWhile (\<lambda>e. \<not> is_publish (u ''42'') e)
                  (snd (snd (poster_instagram_post_run (sim env_ok hosted with_id finished)
                               (u ''a.png'') (u ''hi'') ([u ''a.png''], []))))))"
proof -
  have h: "list_ex (is_publish (u ''42''))
     (snd (snd (poster_instagram_post_run (sim env_ok hosted with_id finished) (u ''a.png'')
                  (u ''hi'') ([u ''a.png''], []))))"
    by (simp add: poster_demo_run)
  with publish_preceded_by_status_check
    [of "sim env_ok hosted with_id finished" "u ''a.png''" "u ''hi''" "[u ''a.png'']"]
  show ?thesis by blast
qed

text \<open>
  Claim C2 as stated fails on \<open>image_generator.py\<close>: its complete run issues the publish
  call and no status query.
\<close>

theorem generator_publishes_unchecked:
  "list_ex (is_publish (u ''42''))
     (snd (snd (generator_instagram_post_run (sim env_ok hosted with_id finished) (u ''a.png'')
                  (u ''hi'') ([u ''a.png''], [])))) \<and>
   \<not> list_ex is_status_query
     (snd (snd (generator_instagram_post_run (sim env_ok hosted with_id finished) (u ''a.png'')
                  (u ''hi'') ([u ''a.png''], []))))"
  by (simp add: generator_demo_run is_status_query_def is_publish_def)

section \<open>The record each stage returns\<close>













section \<open>Every path returns a record\<close>






section \<open>The success field\<close>



section \<open>The caption\<close>

lemma dropWhile_all: "(\<forall>x\<in>set (dropWhile P xs). P x) \<longleftrightarrow> dropWhile P xs = []"
proof
  assume a: "\<forall>x\<in>set (dropWhile P xs). P x"
  show "dropWhile P xs = []"
  proof (rule ccontr)
    assume n: "dropWhile P xs \<noteq> []"
    then have "\<not> P (hd (dropWhile P xs))" by (rule hd_dropWhile)
    moreover from n have "hd (dropWhile P xs) \<in> set (dropWhile P xs)" by simp
    ultimately show False using a by blast
  qed
qed (auto dest: set_dropWhileD)

lemma strip_blank_iff: "strip s = [] \<longleftrightarrow> (\<forall>ch\<in>set s. is_space ch)"
  by (simp add: strip_def dropWhile_eq_Nil_conv dropWhile_all)

lemma strip_default: "strip default_caption \<noteq> []"
proof -
  have "10024 \<in> set default_caption" by (simp add: default_caption_def)
  moreover have "\<not> is_space 10024" by (simp add: is_space_def)
  ultimately show ?thesis unfolding strip_blank_iff by blast
qed

lemma caption_sent_simps [simp]:
  "caption_sent c (HttpPost url (media_payload img c' t)) \<longleftrightarrow> c' = c"
  "caption_sent c (HttpPost url (publish_payload t cid))"
  "caption_sent c (HttpGet url)"
  "caption_sent c (Sleep n)"
  "caption_sent c (Upload p)"
  "caption_sent c (ImageOpen p)"
  "caption_sent c (ImageCrop i box)"
  "caption_sent c (ImageResize i dims)"
  "caption_sent c (ImageSave i p)"
  "caption_sent c (FileRemove p)"
  by (auto simp: caption_sent_def media_payload_def publish_payload_def)

lemma caption_rounds: "list_all (caption_sent c) (rounds url k)"
  by (induction k) (simp_all add: rounds_0 rounds_Suc)

lemma caption_poll_publish_log:
  "poll_publish_log ops t b cid ext \<Longrightarrow> list_all (caption_sent c) ext"
  unfolding poll_publish_log_def
  by (auto simp: caption_rounds)

lemma poster_body_caption:
  "list_all (caption_sent c) (snd (snd (poster_body ops p c t b (w, []))))"
  using poster_body_events [of ops p c t b "(w, [])"]
  by (auto simp: caption_poll_publish_log)

lemma resize_caption:
  "list_all (caption_sent c) (snd s) \<Longrightarrow>
   list_all (caption_sent c) (snd (snd (resize_for_instagram ops p s)))"
  by (simp add: resize_for_instagram_def resize_body_def call_defs Let_def
      split: prod.split sum.split option.split)

lemma cleanup_caption:
  "list_all (caption_sent c) (snd s) \<Longrightarrow> list_all (caption_sent c) (snd (cleanup ops p q s))"
  by (simp add: cleanup_def do_remove_def split: prod.split)

lemma generator_publish_caption:
  "list_all (caption_sent c) (snd s) \<Longrightarrow>
   list_all (caption_sent c) (snd (snd (generator_publish ops p q c t b img cid s)))"
  by (simp add: generator_publish_def do_post_def Let_def cleanup_caption
      split: prod.split sum.split bool.split)

lemma generator_container_caption:
  "list_all (caption_sent c) (snd s) \<Longrightarrow>
   list_all (caption_sent c) (snd (snd (generator_container ops p q c t b img s)))"
  by (simp add: generator_container_def do_post_def generator_publish_caption
      split: prod.split sum.split bool.split)

lemma generator_body_caption:
  "list_all (caption_sent c) (snd s) \<Longrightarrow>
   list_all (caption_sent c) (snd (snd (generator_body ops p c t b s)))"
proof -
  assume a: "list_all (caption_sent c) (snd s)"
  obtain q s0 where r: "resize_for_instagram ops p s = (q, s0)"
    by (cases "resize_for_instagram ops p s") auto
  have s0: "list_all (caption_sent c) (snd s0)"
    using resize_caption [OF a, of ops p] r by simp
  show ?thesis
    unfolding generator_body_def r
    by (simp add: s0 do_upload_def generator_container_caption split: prod.split sum.split)
qed


lemma generator_body_caption_run:
  "list_all (caption_sent c) (snd (snd (generator_instagram_post_run ops p c (w, []))))"
  using generator_run_state [of ops p c "(w, [])"]
    generator_body_caption [of c "(w, [])" ops p]
  by auto

lemma poster_demo_run_any:
  "poster_instagram_post_run (sim env_ok hosted with_id finished) (u ''a.png'') c
       ([u ''a.png''], []) =
     (Inr [(''post_status'', JStr (u ''Successfully posted to Instagram!'')),
           (''success'', JBool True),
           (''media_id'', JStr (u ''17'')),
           (''caption'', JStr (if strip c = [] then default_caption else c)),
           (''image_url'', JStr (u ''https://host/i.png''))],
      ([u ''a.png''],
       [Upload (u ''a.png''),
        HttpPost (media_url (u ''42''))
          (media_payload (JStr (u ''https://host/i.png''))
             (if strip c = [] then default_caption else c) (u ''tok'')),
        HttpGet (status_url (sim env_ok hosted with_id finished) (JStr (u ''17'')) (u ''tok'')),
        HttpPost (publish_url (u ''42'')) (publish_payload (u ''tok'') (JStr (u ''17'')))]))"
  by (simp add: poster_instagram_post_run_def poster_body_def poster_container_def
        poll_and_publish_def publish_container_def publish_result_def call_defs Let_def
        unset_def env_ok_def hosted_def with_id_def finished_def eval_nat_numeral)

lemma generator_demo_run_any:
  "generator_instagram_post_run (sim env_ok hosted with_id finished) (u ''a.png'') c
       ([u ''a.png''], []) =
     (Inr [(''post_status'', JStr (u ''Successfully posted to Instagram!'')),
           (''media_id'', JStr (u ''17'')),
           (''caption'', JStr c),
           (''image_url'', JStr (u ''https://host/i.png''))],
      ([u ''a.png''],
       [ImageOpen (u ''a.png''),
        ImageCrop \<lparr>img_width = 1920, img_height = 1080\<rparr> (420, 0, 1500, 1080),
        ImageResize \<lparr>img_width = 1080, img_height = 1080\<rparr> (1080, 1080),
        ImageSave \<lparr>img_width = 1080, img_height = 1080\<rparr> (u ''a_instagram.png''),
        Upload (u ''a_instagram.png''),
        HttpPost (media_url (u ''42''))
          (media_payload (JStr (u ''https://host/i.png'')) c (u ''tok'')),
        HttpPost (publish_url (u ''42'')) (publish_payload (u ''tok'') (JStr (u ''17''))),
        FileRemove (u ''a_instagram.png'')]))"
  by (simp add: generator_instagram_post_run_def generator_body_def generator_container_def
        generator_publish_def cleanup_def resize_for_instagram_def resize_body_def call_defs
        crop_box_def Let_def resized_png unset_def env_ok_def hosted_def with_id_def)

text \<open>
  Claim C9, as amended.  When the caption is empty or consists of white space only, a run
  of \<open>instagram_poster.py\<close> is the run on the default caption: every call of the run
  that carries a caption carries the default one, from the first call on.  The workflow of
  \<open>image_generator.py\<close> substitutes nothing: its calls carry the caption as given.
\<close>

theorem blank_caption_defaulted:
  assumes "\<forall>ch\<in>set caption. is_space ch"
  shows "poster_instagram_post_run ops image_path caption (w, []) =
           poster_instagram_post_run ops image_path default_caption (w, []) \<and>
         list_all (caption_sent default_caption)
           (snd (snd (poster_instagram_post_run ops image_path caption (w, [])))) \<and>
         list_all (caption_sent caption)
           (snd (snd (generator_instagram_post_run ops image_path caption (w, []))))"
proof (intro conjI)
  have blank: "strip caption = []" using assms by (simp add: strip_blank_iff)
  show "poster_instagram_post_run ops image_path caption (w, []) =
           poster_instagram_post_run ops image_path default_caption (w, [])"
    by (simp add: poster_instagram_post_run_def blank strip_default)
  show "list_all (caption_sent default_caption)
           (snd (snd (poster_instagram_post_run ops image_path caption (w, []))))"
    using poster_run_state [of ops image_path caption "(w, [])"]
      poster_body_caption [of default_caption ops image_path _ _ w]
    by (auto simp: blank)
  show "list_all (caption_sent caption)
           (snd (snd (generator_instagram_post_run ops image_path caption (w, []))))"
    by (rule generator_body_caption_run)
qed

text \<open>
  The theorem at the caption of one space: the container call of
  \<open>instagram_poster.py\<close> carries the default caption.
\<close>

theorem blank_caption_defaulted_witness:
  "is_space 32 \<and>
   snd (poster_instagram_post_run (sim env_ok hosted with_id finished) (u ''a.png'') [32]
          ([u ''a.png''], [])) =
     ([u ''a.png''],
       [Upload (u ''a.png''),
        HttpPost (media_url (u ''42''))
          (media_payload (JStr (u ''https://host/i.png'')) default_caption (u ''tok'')),
        HttpGet (status_url (sim env_ok hosted with_id finished) (JStr (u ''17'')) (u ''tok'')),
        HttpPost (publish_url (u ''42'')) (publish_payload (u ''tok'') (JStr (u ''17'')))])"
proof -
  have h: "\<forall>ch\<in>set [32]. is_space ch" by (simp add: is_space_def)
  from blank_caption_defaulted [OF h, of "sim env_ok hosted with_id finished" "u ''a.png''"
      "[u ''a.png'']"]
  have "poster_instagram_post_run (sim env_ok hosted with_id finished) (u ''a.png'') [32]
          ([u ''a.png''], []) =
        poster_instagram_post_run (sim env_ok hosted with_id finished) (u ''a.png'')
          default_caption ([u ''a.png''], [])" by blast
  with h show ?thesis by (simp add: poster_demo_run_any strip_default)
qed

text \<open>
  Claim C9 as stated fails on \<open>image_generator.py\<close>: for the caption of one space its
  container call carries that blank caption.
\<close>

theorem generator_sends_blank_caption:
  "is_space 32 \<and> strip [32] = [] \<and> [32] \<noteq> default_caption \<and>
   snd (generator_instagram_post_run (sim env_ok hosted with_id finished) (u ''a.png'') [32]
          ([u ''a.png''], [])) =
     ([u ''a.png''],
       [ImageOpen (u ''a.png''),
        ImageCrop \<lparr>img_width = 1920, img_height = 1080\<rparr> (420, 0, 1500, 1080),
        ImageResize \<lparr>img_width = 1080, img_height = 1080\<rparr> (1080, 1080),
        ImageSave \<lparr>img_width = 1080, img_height = 1080\<rparr> (u ''a_instagram.png''),
        Upload (u ''a_instagram.png''),
        HttpPost (media_url (u ''42''))
          (media_payload (JStr (u ''https://host/i.png'')) [32] (u ''tok'')),
        HttpPost (publish_url (u ''42'')) (publish_payload (u ''tok'') (JStr (u ''17''))),
        FileRemove (u ''a_instagram.png'')])"
  by (simp add: generator_demo_run_any strip_blank_iff is_space_def default_caption_def)

section \<open>The cloud-client initialiser\<close>





end
